theory Spec2Isabelle
  imports Main "HOL-Library.AList"
begin

section \<open>The workflow engine of vapi-go\<close>

text \<open>
  A shallow embedding of the Go package \<open>workflow\<close>: the node variants \<open>SayNode\<close> and
  \<open>GatherNode\<close> with their \<open>Execute\<close> methods, the per-execution \<open>WorkflowState\<close>, and the
  \<open>WorkflowEngine\<close> operations \<open>CreateWorkflow\<close>, \<open>StartWorkflow\<close> and
  \<open>ProcessConversationUpdate\<close>.

  Conventions of the embedding.
  \<^item> A Go \<open>string\<close> is a \<open>string\<close>; \<open>NodeType\<close>, \<open>MessageType\<close> and \<open>minds.DataType\<close>
    are Go string types and stay strings here, so every value the Go code can hold is
    representable.
  \<^item> \<open>time.Time\<close> is a natural number, the zero time is \<open>0\<close>.
  \<^item> A Go \<open>map[string]T\<close> that the code iterates over is an association list (lookup by
    \<open>map_of\<close>, assignment by \<open>AList.update\<close>); the iteration order, which Go leaves
    unspecified, is the order of the list. A nil map and an empty map read alike
    and are both \<open>[]\<close>.
  \<^item> A method with a pointer receiver that mutates its receiver or its arguments
    returns the updated values.
  \<^item> Calls of the logger have no effect on the values computed and are left out.
\<close>

subsection \<open>Values and errors\<close>

text \<open>The values of type \<open>any\<close> that the code stores in \<open>Variables\<close> and \<open>ExtractedData\<close>.\<close>

datatype val = VString string | VInt int | VBool bool

text \<open>
  Errors: \<open>fmt.Errorf\<close> with a plain message, \<open>fmt.Errorf("...: %w", err)\<close> wrapping an
  error, the typed \<open>ErrNodeNotFound{NodeID}\<close>, a failure reported by the storage, and a
  run-time panic (a nil pointer dereference).
\<close>

datatype error =
    Errorf string
  | Wrap string error
  | ErrNodeNotFound string
  | StorageFailure
  | Panic string

subsection \<open>Schemas (\<open>minds.Definition\<close>)\<close>

text \<open>
  The type \<open>minds.Definition\<close> belongs to an imported module. The fields the workflow
  package reads are \<open>Type\<close>, \<open>Description\<close>, \<open>Enum\<close>, \<open>Properties\<close>, \<open>Required\<close> and
  \<open>Nullable\<close>.
\<close>

datatype Definition = Definition
  (Type: string)
  (Description: string)
  (Enum: "string list")
  (Properties: "(string \<times> Definition) list")
  (Required: "string list")
  (Nullable: bool)

text \<open>
  The data types the code compares with, \<open>minds.Object\<close>, \<open>minds.Number\<close>,
  \<open>minds.Integer\<close>, \<open>minds.String\<close> and \<open>minds.Boolean\<close>, with the values the same
  constants have in \<open>schema.go\<close> of this repository.
\<close>

definition Object :: string where "Object = ''object''"
definition Number :: string where "Number = ''number''"
definition Integer :: string where "Integer = ''integer''"
definition String :: string where "String = ''string''"
definition Boolean :: string where "Boolean = ''boolean''"

text \<open>The zero value of the struct, which indexing a Go map at an absent key returns.\<close>

definition zero_Definition :: Definition where
  "zero_Definition = Definition [] [] [] [] [] False"

subsection \<open>Nodes and the execution state\<close>

definition NodeTypeSay :: string where "NodeTypeSay = ''say''"
definition NodeTypeGather :: string where "NodeTypeGather = ''gather''"

record BaseNode =
  NodeID :: string
  NodeType :: string
  NextNodeID :: string
  NodeCreatedAt :: nat
  NodeLastUpdatedAt :: nat

record SayNode =
  SayBase :: BaseNode
  Message :: string
  SayLLMPrompt :: string
  MessageType :: string

text \<open>\<open>GatherSchema\<close> is a pointer: \<open>None\<close> is the nil pointer.\<close>

record GatherNode =
  GatherBase :: BaseNode
  GatherSchema :: "Definition option"
  MaxAttempts :: int
  LLMPrompt :: string
  FallbackNodeID :: string
  FollowUpPrompt :: string
  ExtractedData :: "(string \<times> val) list"

text \<open>The interface \<open>Node\<close> with its two implementations.\<close>

datatype Node = Say SayNode | Gather GatherNode

fun Base :: "Node \<Rightarrow> BaseNode" where
  "Base (Say n) = SayBase n"
| "Base (Gather n) = GatherBase n"

text \<open>\<open>BaseNode.ID\<close> and \<open>BaseNode.Type\<close> return the stored fields.\<close>

definition ID :: "Node \<Rightarrow> string" where
  "ID n = NodeID (Base n)"

definition Type_of :: "Node \<Rightarrow> string" where
  "Type_of n = NodeType (Base n)"

record WorkflowState =
  WorkflowID :: string
  UserID :: string
  CallID :: string
  CurrentNodeID :: string
  CompletedNodeIDs :: "string list"
  Variables :: "(string \<times> val) list"
  LastMessageAt :: nat
  LastUpdatedAt :: nat
  IsComplete :: bool

record Workflow =
  WfID :: string
  Name :: string
  WfDescription :: string
  Nodes :: "(string \<times> Node) list"
  StartNodeID :: string
  CreatedAt :: nat
  UpdatedAt :: nat

text \<open>
  A turn of the conversation (\<open>vapi.Message\<close>, its role and its text; the timing fields
  are left out). The node methods receive the turns and never read them.
\<close>

record Message_turn =
  Role :: string
  MessageText :: string

subsection \<open>\<open>json.Marshal\<close> on the stored values\<close>

text \<open>
  The encoder of the standard library (as of Go 1.18, the version \<open>go.mod\<close> names), on
  the three kinds of value above. A string is a sequence of bytes in UTF-8. The encoder
  quotes it and escapes, with a backslash, the quote and the backslash themselves, the
  line feed, the carriage return and the tab by their letters, and every other byte
  below \<open>0x20\<close> as well as \<open><\<close>, \<open>>\<close> and \<open>&\<close> as \<open>u00\<close> and two hexadecimal digits; the line
  and paragraph separators U+2028 and U+2029 (the bytes \<open>E2 80 A8\<close> and \<open>E2 80 A9\<close>)
  become \<open>u2028\<close> and \<open>u2029\<close> after a backslash. The replacement of bytes that are not
  valid UTF-8 is not modelled: the strings are taken to be valid UTF-8.
\<close>

fun decimal :: "nat \<Rightarrow> string" where
  "decimal n = (if n < 10 then [char_of (48 + n)] else decimal (n div 10) @ [char_of (48 + n mod 10)])"

declare decimal.simps [simp del]

definition int_decimal :: "int \<Rightarrow> string" where
  "int_decimal i = (if i < 0 then CHR ''-'' # decimal (nat (- i)) else decimal (nat i))"

definition hex_digit :: "nat \<Rightarrow> char" where
  "hex_digit n = ''0123456789abcdef'' ! (n mod 16)"

definition escape_byte :: "char \<Rightarrow> string" where
  "escape_byte c =
     (if c = CHR 0x22 \<or> c = CHR 0x5C then [CHR 0x5C, c]
      else if c = CHR 0x0A then [CHR 0x5C, CHR ''n'']
      else if c = CHR 0x0D then [CHR 0x5C, CHR ''r'']
      else if c = CHR 0x09 then [CHR 0x5C, CHR ''t'']
      else if (of_char c :: nat) < 0x20 \<or> c = CHR 0x3C \<or> c = CHR 0x3E \<or> c = CHR 0x26 then
        [CHR 0x5C, CHR ''u'', CHR ''0'', CHR ''0'',
         hex_digit ((of_char c :: nat) div 16), hex_digit (of_char c :: nat)]
      else [c])"

fun json_escape :: "string \<Rightarrow> string" where
  "json_escape (a # b # c # cs) =
     (if a = CHR 0xE2 \<and> b = CHR 0x80 \<and> c = CHR 0xA8 then
        CHR 0x5C # ''u2028'' @ json_escape cs
      else if a = CHR 0xE2 \<and> b = CHR 0x80 \<and> c = CHR 0xA9 then
        CHR 0x5C # ''u2029'' @ json_escape cs
      else escape_byte a @ json_escape (b # c # cs))"
| "json_escape (a # cs) = escape_byte a @ json_escape cs"
| "json_escape [] = []"

fun json_Marshal :: "val \<Rightarrow> string" where
  "json_Marshal (VString s) = [CHR 0x22] @ json_escape s @ [CHR 0x22]"
| "json_Marshal (VInt i) = int_decimal i"
| "json_Marshal (VBool b) = (if b then ''true'' else ''false'')"

subsection \<open>The common tail of every \<open>Execute\<close>\<close>

text \<open>
  Every variant ends alike: it appends its id to \<open>CompletedNodeIDs\<close>, moves
  \<open>CurrentNodeID\<close> to \<open>NextNodeID\<close> or, when that is empty, sets \<open>IsComplete\<close>, and stamps
  \<open>LastUpdatedAt\<close> with \<open>time.Now()\<close> (the argument \<open>now\<close>).
\<close>

definition advance :: "nat \<Rightarrow> BaseNode \<Rightarrow> WorkflowState \<Rightarrow> WorkflowState" where
  "advance now b state =
     (let state = state\<lparr>CompletedNodeIDs := CompletedNodeIDs state @ [NodeID b]\<rparr>;
          state = (if NextNodeID b \<noteq> [] then state\<lparr>CurrentNodeID := NextNodeID b\<rparr>
                   else state\<lparr>IsComplete := True\<rparr>)
      in state\<lparr>LastUpdatedAt := now\<rparr>)"

subsection \<open>\<open>SayNode.Execute\<close>\<close>

text \<open>
  The loop of the generated branch: for every variable, in iteration order,
  \<open>prompt = fmt.Sprintf("%s\n%s: %s", prompt, key, json.Marshal(value))\<close>.
\<close>

fun append_variables :: "string \<Rightarrow> (string \<times> val) list \<Rightarrow> string" where
  "append_variables prompt [] = prompt"
| "append_variables prompt ((key, v) # vars) =
     append_variables (prompt @ [CHR 0x0A] @ key @ '': '' @ json_Marshal v) vars"

text \<open>
  \<open>say_node.go\<close>, the method with the signature \<open>Execute(ctx, state)\<close> that the engine
  calls. A message type other than \<open>"exact"\<close> and \<open>"generated"\<close> falls through both
  branches with the empty message. The method has no error return other than \<open>nil\<close>.
\<close>

definition SayNode_Execute :: "nat \<Rightarrow> SayNode \<Rightarrow> WorkflowState \<Rightarrow> error + WorkflowState" where
  "SayNode_Execute now n state =
     (let message =
        (if MessageType n = ''exact'' then Message n
         else if MessageType n = ''generated'' then
           ''Generated message based on: '' @ append_variables (SayLLMPrompt n) (Variables state)
         else [])
      in Inr (advance now (SayBase n)
                (state\<lparr>Variables := AList.update ''lastSayMessage'' (VString message) (Variables state)\<rparr>)))"

text \<open>
  The revision of the method with the signature \<open>Execute(ctx, state, messages)\<close>, which
  the interface \<open>Node\<close> of \<open>node.go\<close> declares: it rejects an unknown message type and
  does not record the message in the variables.
\<close>

definition SayNode_Execute_messages ::
    "nat \<Rightarrow> SayNode \<Rightarrow> WorkflowState \<Rightarrow> Message_turn list \<Rightarrow> error + WorkflowState" where
  "SayNode_Execute_messages now n state messages =
     (if MessageType n = ''exact'' \<or> MessageType n = ''generated'' then
        Inr (advance now (SayBase n) state)
      else Inl (Errorf (''invalid message type: '' @ MessageType n)))"

subsection \<open>\<open>GatherNode.Execute\<close>\<close>

text \<open>
  \<open>gather_node.go\<close>, the method \<open>Execute(ctx, state)\<close> that the engine calls. Its first
  loop collects the properties of the schema that are listed in \<open>Required\<close> and have no
  entry in \<open>ExtractedData\<close>; the inner loop over \<open>Required\<close> is the membership test. The
  loop body does not look at \<open>Nullable\<close>.
\<close>

definition missing_required :: "Definition \<Rightarrow> (string \<times> val) list \<Rightarrow> string list" where
  "missing_required schema extracted =
     (if Type schema = Object then
        [propName \<leftarrow> map fst (Properties schema).
           propName \<in> set (Required schema) \<and> map_of extracted propName = None]
      else [])"

text \<open>Indexing the map \<open>Properties\<close>: the zero struct at an absent key.\<close>

definition property :: "Definition \<Rightarrow> string \<Rightarrow> Definition" where
  "property schema propName =
     (case map_of (Properties schema) propName of Some d \<Rightarrow> d | None \<Rightarrow> zero_Definition)"

text \<open>The value the simulated extraction invents for a property: the \<open>switch propDef.Type\<close>.\<close>

definition dummy_value :: "string \<Rightarrow> Definition \<Rightarrow> val" where
  "dummy_value propName propDef =
     (if Type propDef = String then VString (''Sample '' @ propName)
      else if Type propDef = Number \<or> Type propDef = Integer then VInt 42
      else if Type propDef = Boolean then VBool True
      else if Enum propDef \<noteq> [] then VString (hd (Enum propDef))
      else VString ''unknown'')"

text \<open>The second loop: \<open>n.ExtractedData[propName] = ...\<close> for every missing property.\<close>

fun simulate_extraction ::
    "Definition \<Rightarrow> string list \<Rightarrow> (string \<times> val) list \<Rightarrow> (string \<times> val) list" where
  "simulate_extraction schema [] data = data"
| "simulate_extraction schema (propName # rest) data =
     simulate_extraction schema rest
       (AList.update propName (dummy_value propName (property schema propName)) data)"

text \<open>The third loop: \<open>state.Variables[k] = v\<close> for every entry of \<open>ExtractedData\<close>.\<close>

fun copy_into :: "(string \<times> val) list \<Rightarrow> (string \<times> val) list \<Rightarrow> (string \<times> val) list" where
  "copy_into [] vars = vars"
| "copy_into ((k, v) # rest) vars = copy_into rest (AList.update k v vars)"

text \<open>
  The method mutates the node (\<open>ExtractedData\<close>) and the state, and returns both. Reading
  \<open>n.GatherSchema.Type\<close> through a nil pointer panics. Neither \<open>MaxAttempts\<close> nor
  \<open>FallbackNodeID\<close> is read.
\<close>

definition GatherNode_Execute ::
    "nat \<Rightarrow> GatherNode \<Rightarrow> WorkflowState \<Rightarrow> error + (GatherNode \<times> WorkflowState)" where
  "GatherNode_Execute now n state =
     (case GatherSchema n of
        None \<Rightarrow> Inl (Panic ''nil pointer dereference'')
      | Some schema \<Rightarrow>
          (let missing = missing_required schema (ExtractedData n) in
           if missing \<noteq> [] then
             (let data = simulate_extraction schema missing (ExtractedData n);
                  n = n\<lparr>ExtractedData := data\<rparr>;
                  state = state\<lparr>Variables := copy_into data (Variables state)\<rparr>
              in Inr (n, advance now (GatherBase n) state))
           else Inr (n, advance now (GatherBase n) state)))"

text \<open>
  The revision with the signature \<open>Execute(ctx, state, messages)\<close> and the helper
  \<open>getMissingProperties\<close>: the loop skips a property that is not required or is
  nullable, so a property counts as missing when it is required, not nullable, and has
  no entry in \<open>ExtractedData\<close>. This revision extracts nothing: it only copies
  \<open>ExtractedData\<close> into the variables when something is missing.
\<close>

definition getMissingProperties :: "GatherNode \<Rightarrow> error + string list" where
  "getMissingProperties n =
     (case GatherSchema n of
        None \<Rightarrow> Inl (Panic ''nil pointer dereference'')
      | Some schema \<Rightarrow>
          Inr (if Type schema = Object then
                 map fst [(propName, propDef) \<leftarrow> Properties schema.
                   propName \<in> set (Required schema) \<and> \<not> Nullable propDef \<and>
                   map_of (ExtractedData n) propName = None]
               else []))"

definition GatherNode_Execute_messages ::
    "nat \<Rightarrow> GatherNode \<Rightarrow> WorkflowState \<Rightarrow> Message_turn list \<Rightarrow>
       error + (GatherNode \<times> WorkflowState)" where
  "GatherNode_Execute_messages now n state messages =
     (case getMissingProperties n of
        Inl e \<Rightarrow> Inl e
      | Inr missing \<Rightarrow>
          (if missing \<noteq> [] then
             Inr (n, advance now (GatherBase n)
                       (state\<lparr>Variables := copy_into (ExtractedData n) (Variables state)\<rparr>))
           else Inr (n, advance now (GatherBase n) state)))"

subsection \<open>Dynamic dispatch of \<open>Node.Execute\<close>\<close>

text \<open>The call \<open>node.Execute(ctx, state)\<close> through the interface, as the engine makes it.\<close>

fun Execute :: "nat \<Rightarrow> Node \<Rightarrow> WorkflowState \<Rightarrow> error + (Node \<times> WorkflowState)" where
  "Execute now (Say n) state =
     (case SayNode_Execute now n state of
        Inl e \<Rightarrow> Inl e
      | Inr state \<Rightarrow> Inr (Say n, state))"
| "Execute now (Gather n) state =
     (case GatherNode_Execute now n state of
        Inl e \<Rightarrow> Inl e
      | Inr (n, state) \<Rightarrow> Inr (Gather n, state))"

text \<open>The same call with the other signature, \<open>node.Execute(ctx, state, messages)\<close>.\<close>

fun Execute_messages ::
    "nat \<Rightarrow> Node \<Rightarrow> WorkflowState \<Rightarrow> Message_turn list \<Rightarrow> error + (Node \<times> WorkflowState)" where
  "Execute_messages now (Say n) state messages =
     (case SayNode_Execute_messages now n state messages of
        Inl e \<Rightarrow> Inl e
      | Inr state \<Rightarrow> Inr (Say n, state))"
| "Execute_messages now (Gather n) state messages =
     (case GatherNode_Execute_messages now n state messages of
        Inl e \<Rightarrow> Inl e
      | Inr (n, state) \<Rightarrow> Inr (Gather n, state))"

subsection \<open>The storage and the clock\<close>

text \<open>
  Modelled from the spec: the implementation of the interface \<open>WorkflowStorage\<close> (the
  repository declares the interface and documents a document-database implementation,
  which is not among the sources). Workflows are kept by id and execution states by the
  triple (workflow id, user id, call id). The storage is durable: what it returns is a
  copy, so a value changed after it was read reaches the storage only through a save.
  \<open>GetWorkflowState\<close> answers a triple that has no stored state with a fresh state: the
  three ids of the triple and the zero value in every other field. Every operation can
  fail: \<open>faults\<close> is the tape of outcomes of the coming storage calls, one entry per
  call, \<open>True\<close> for a failure; past its end every call succeeds.

  \<open>clock\<close> is the time of the last reading of \<open>time.Now()\<close>; each reading is later than
  the one before, hence never the zero time.
\<close>

record World =
  workflows :: "string \<rightharpoonup> Workflow"
  states :: "(string \<times> string \<times> string) \<rightharpoonup> WorkflowState"
  faults :: "bool list"
  clock :: nat

definition fault :: "World \<Rightarrow> bool \<times> World" where
  "fault w = (case faults w of [] \<Rightarrow> (False, w) | f # fs \<Rightarrow> (f, w\<lparr>faults := fs\<rparr>))"

definition time_Now :: "World \<Rightarrow> nat \<times> World" where
  "time_Now w = (Suc (clock w), w\<lparr>clock := Suc (clock w)\<rparr>)"

definition fresh_state :: "string \<Rightarrow> string \<Rightarrow> string \<Rightarrow> WorkflowState" where
  "fresh_state workflowID userID callID =
     \<lparr>WorkflowID = workflowID, UserID = userID, CallID = callID, CurrentNodeID = [],
      CompletedNodeIDs = [], Variables = [], LastMessageAt = 0, LastUpdatedAt = 0,
      IsComplete = False\<rparr>"

definition SaveWorkflow :: "Workflow \<Rightarrow> World \<Rightarrow> (error + unit) \<times> World" where
  "SaveWorkflow workflow w =
     (case fault w of
        (True, w) \<Rightarrow> (Inl StorageFailure, w)
      | (False, w) \<Rightarrow> (Inr (), w\<lparr>workflows := (workflows w)(WfID workflow \<mapsto> workflow)\<rparr>))"

definition GetWorkflow :: "string \<Rightarrow> World \<Rightarrow> (error + Workflow option) \<times> World" where
  "GetWorkflow workflowID w =
     (case fault w of
        (True, w) \<Rightarrow> (Inl StorageFailure, w)
      | (False, w) \<Rightarrow> (Inr (workflows w workflowID), w))"

definition SaveWorkflowState :: "WorkflowState \<Rightarrow> World \<Rightarrow> (error + unit) \<times> World" where
  "SaveWorkflowState state w =
     (case fault w of
        (True, w) \<Rightarrow> (Inl StorageFailure, w)
      | (False, w) \<Rightarrow>
          (Inr (), w\<lparr>states := (states w)((WorkflowID state, UserID state, CallID state) \<mapsto> state)\<rparr>))"

definition GetWorkflowState ::
    "string \<Rightarrow> string \<Rightarrow> string \<Rightarrow> World \<Rightarrow> (error + WorkflowState) \<times> World" where
  "GetWorkflowState workflowID userID callID w =
     (case fault w of
        (True, w) \<Rightarrow> (Inl StorageFailure, w)
      | (False, w) \<Rightarrow>
          (Inr (case states w (workflowID, userID, callID) of
                  Some state \<Rightarrow> state
                | None \<Rightarrow> fresh_state workflowID userID callID), w))"

text \<open>
  Modelled from the spec: in the package \<open>workflows\<close> the interface method
  \<open>GetWorkflow\<close> returns a workflow or an error, with no flag for a workflow that is not
  stored; the storage reports a missing workflow as an error.
\<close>

definition GetWorkflow_workflows :: "string \<Rightarrow> World \<Rightarrow> (error + Workflow) \<times> World" where
  "GetWorkflow_workflows workflowID w =
     (case GetWorkflow workflowID w of
        (Inl err, w) \<Rightarrow> (Inl err, w)
      | (Inr None, w) \<Rightarrow> (Inl (Errorf (''workflow not found: '' @ workflowID)), w)
      | (Inr (Some workflow), w) \<Rightarrow> (Inr workflow, w))"

subsection \<open>The engine (\<open>engine.go\<close>)\<close>

text \<open>
  \<open>CreateWorkflow\<close>: four validations, the two time stamps, then the save. The caller's
  workflow is stamped in place; the stamped workflow is what the storage receives.
\<close>

definition CreateWorkflow :: "Workflow \<Rightarrow> World \<Rightarrow> (error + unit) \<times> World" where
  "CreateWorkflow workflow w =
     (if WfID workflow = [] then (Inl (Errorf ''workflow ID cannot be empty''), w)
      else if StartNodeID workflow = [] then (Inl (Errorf ''workflow must have a start node''), w)
      else if length (Nodes workflow) = 0 then
        (Inl (Errorf ''workflow must have at least one node''), w)
      else if map_of (Nodes workflow) (StartNodeID workflow) = None then
        (Inl (Errorf (''start node ID '' @ [CHR 0x27] @ StartNodeID workflow @ [CHR 0x27] @
                      '' not found in workflow nodes'')), w)
      else
        (case time_Now w of (now, w) \<Rightarrow>
           (let workflow = (if CreatedAt workflow = 0 then workflow\<lparr>CreatedAt := now\<rparr> else workflow);
                workflow = workflow\<lparr>UpdatedAt := now\<rparr>
            in SaveWorkflow workflow w)))"

text \<open>
  \<open>StartWorkflow\<close>: the state of the triple is loaded (or is the fresh state); only a
  state with an empty \<open>CurrentNodeID\<close> is moved to the start node and saved.
\<close>

definition StartWorkflow ::
    "string \<Rightarrow> string \<Rightarrow> string \<Rightarrow> World \<Rightarrow> (error + WorkflowState) \<times> World" where
  "StartWorkflow workflowID userID callID w =
     (case GetWorkflow workflowID w of
        (Inl err, w) \<Rightarrow> (Inl (Wrap ''failed to get workflow'' err), w)
      | (Inr None, w) \<Rightarrow> (Inl (Errorf (''workflow not found: '' @ workflowID)), w)
      | (Inr (Some workflow), w) \<Rightarrow>
          (case GetWorkflowState workflowID userID callID w of
             (Inl err, w) \<Rightarrow> (Inl (Wrap ''failed to get workflow state'' err), w)
           | (Inr state, w) \<Rightarrow>
               if CurrentNodeID state = [] then
                 (let state = state\<lparr>CurrentNodeID := StartNodeID workflow\<rparr> in
                  case SaveWorkflowState state w of
                    (Inl err, w) \<Rightarrow> (Inl (Wrap ''failed to save initial workflow state'' err), w)
                  | (Inr _, w) \<Rightarrow> (Inr state, w))
               else (Inr state, w)))"

text \<open>
  \<open>StartWorkflow\<close> of the package \<open>workflows\<close>: the same, but the state is saved
  whether it was moved to the start node or not.
\<close>

definition StartWorkflow_workflows ::
    "string \<Rightarrow> string \<Rightarrow> string \<Rightarrow> World \<Rightarrow> (error + WorkflowState) \<times> World" where
  "StartWorkflow_workflows workflowID userID callID w =
     (case GetWorkflow_workflows workflowID w of
        (Inl err, w) \<Rightarrow> (Inl (Wrap ''failed to get workflow'' err), w)
      | (Inr workflow, w) \<Rightarrow>
          (case GetWorkflowState workflowID userID callID w of
             (Inl err, w) \<Rightarrow> (Inl (Wrap ''failed to get workflow state'' err), w)
           | (Inr state, w) \<Rightarrow>
               (let state = (if CurrentNodeID state = []
                             then state\<lparr>CurrentNodeID := StartNodeID workflow\<rparr> else state) in
                case SaveWorkflowState state w of
                  (Inl err, w) \<Rightarrow> (Inl (Wrap ''failed to save initial workflow state'' err), w)
                | (Inr _, w) \<Rightarrow> (Inr state, w))))"

text \<open>
  An error returned by \<open>Execute\<close> is wrapped by the engine; a panic is not an error
  value and unwinds through the engine as it is.
\<close>

fun execution_failed :: "error \<Rightarrow> error" where
  "execution_failed (Panic m) = Panic m"
| "execution_failed err = Wrap ''node execution failed'' err"

text \<open>
  The second half of \<open>ProcessConversationUpdate\<close>, after the first node was executed
  and the state saved: when the state is not complete and its \<open>CurrentNodeID\<close> differs
  from the id of the executed node, the node now current is looked up; a missing node
  only logs a warning, a node whose \<open>Type()\<close> is \<open>NodeTypeSay\<close> is executed and the state
  saved again, any other node is left for the next update.
\<close>

definition auto_advance ::
    "Workflow \<Rightarrow> Node \<Rightarrow> WorkflowState \<Rightarrow> World \<Rightarrow> (error + WorkflowState) \<times> World" where
  "auto_advance workflow currentNode state w =
     (if \<not> IsComplete state \<and> CurrentNodeID state \<noteq> ID currentNode then
        (case map_of (Nodes workflow) (CurrentNodeID state) of
           None \<Rightarrow> (Inr state, w)
         | Some nextNode \<Rightarrow>
             if Type_of nextNode = NodeTypeSay then
               (case time_Now w of (now, w') \<Rightarrow>
                 (case Execute now nextNode state of
                    Inl err \<Rightarrow> (Inl (execution_failed err), w)
                  | Inr (nextNode, state) \<Rightarrow>
                      (case SaveWorkflowState state w' of
                         (Inl err, w) \<Rightarrow> (Inl (Wrap ''failed to save workflow state'' err), w)
                       | (Inr _, w) \<Rightarrow> (Inr state, w))))
             else (Inr state, w))
      else (Inr state, w))"

text \<open>
  \<open>ProcessConversationUpdate\<close>. The argument \<open>messages\<close> is not read. The workflow read
  from the storage holds its nodes by pointer, so the node that \<open>Execute\<close> changed is the
  node the second lookup finds under the same key: the changed node is written back
  into the workflow of this call (not into the storage). The clock is read inside
  \<open>Execute\<close> as its last step, hence not at all when \<open>Execute\<close> fails.
\<close>

definition ProcessConversationUpdate ::
    "string \<Rightarrow> string \<Rightarrow> string \<Rightarrow> (string \<times> val) list list \<Rightarrow> World \<Rightarrow>
       (error + WorkflowState) \<times> World" where
  "ProcessConversationUpdate workflowID userID callID messages w =
     (case GetWorkflow workflowID w of
        (Inl err, w) \<Rightarrow> (Inl (Wrap ''failed to get workflow'' err), w)
      | (Inr None, w) \<Rightarrow> (Inl (Errorf (''workflow not found: '' @ workflowID)), w)
      | (Inr (Some workflow), w) \<Rightarrow>
          (case GetWorkflowState workflowID userID callID w of
             (Inl err, w) \<Rightarrow> (Inl (Wrap ''failed to get workflow state'' err), w)
           | (Inr state, w) \<Rightarrow>
               if IsComplete state then (Inr state, w)
               else
                 (case time_Now w of (now, w) \<Rightarrow>
                   (let state = state\<lparr>LastMessageAt := now\<rparr> in
                    case map_of (Nodes workflow) (CurrentNodeID state) of
                      None \<Rightarrow> (Inl (ErrNodeNotFound (CurrentNodeID state)), w)
                    | Some currentNode \<Rightarrow>
                        (case time_Now w of (now, w') \<Rightarrow>
                          (case Execute now currentNode state of
                             Inl err \<Rightarrow> (Inl (execution_failed err), w)
                           | Inr (currentNode, state') \<Rightarrow>
                               (let workflow = workflow\<lparr>Nodes :=
                                      AList.update (CurrentNodeID state) currentNode (Nodes workflow)\<rparr>
                                in case SaveWorkflowState state' w' of
                                     (Inl err, w) \<Rightarrow>
                                       (Inl (Wrap ''failed to save workflow state'' err), w)
                                   | (Inr _, w) \<Rightarrow> auto_advance workflow currentNode state' w)))))))"

subsection \<open>The variable-list \<open>GatherNode\<close> of package \<open>workflows\<close>\<close>

text \<open>
  The package \<open>workflows\<close> describes what to gather by a list of
  \<open>GatherVariable\<close>s instead of a schema. Its \<open>Execute\<close> counts every variable without an
  entry in \<open>ExtractedData\<close> as missing, required or not. The \<open>switch\<close> of the simulated
  extraction has the four cases of the declared data types and no default: a variable
  of any other data type gets no value.
\<close>

record GatherVariable =
  VarName :: string
  VarDescription :: string
  DataType :: string
  VarRequired :: bool
  EnumValues :: "string list"

definition DataTypeString :: string where "DataTypeString = ''string''"
definition DataTypeNumber :: string where "DataTypeNumber = ''number''"
definition DataTypeBoolean :: string where "DataTypeBoolean = ''boolean''"
definition DataTypeEnum :: string where "DataTypeEnum = ''enum''"

record GatherNode_workflows =
  Base_v :: BaseNode
  Variables_v :: "GatherVariable list"
  MaxAttempts_v :: int
  LLMPrompt_v :: string
  FallbackNodeID_v :: string
  FollowUpPrompt_v :: string
  ExtractedData_v :: "(string \<times> val) list"

fun simulate_extraction_variables ::
    "GatherVariable list \<Rightarrow> (string \<times> val) list \<Rightarrow> (string \<times> val) list" where
  "simulate_extraction_variables [] data = data"
| "simulate_extraction_variables (variable # rest) data =
     simulate_extraction_variables rest
       (if DataType variable = DataTypeString then
          AList.update (VarName variable) (VString (''Sample '' @ VarName variable)) data
        else if DataType variable = DataTypeNumber then
          AList.update (VarName variable) (VInt 42) data
        else if DataType variable = DataTypeBoolean then
          AList.update (VarName variable) (VBool True) data
        else if DataType variable = DataTypeEnum then
          (if length (EnumValues variable) > 0 then
             AList.update (VarName variable) (VString (hd (EnumValues variable))) data
           else AList.update (VarName variable) (VString ''unknown'') data)
        else data)"

definition GatherNode_workflows_Execute ::
    "nat \<Rightarrow> GatherNode_workflows \<Rightarrow> WorkflowState \<Rightarrow>
       error + (GatherNode_workflows \<times> WorkflowState)" where
  "GatherNode_workflows_Execute now n state =
     (let missing = [variable \<leftarrow> Variables_v n. map_of (ExtractedData_v n) (VarName variable) = None] in
      if length missing > 0 then
        (let data = simulate_extraction_variables missing (ExtractedData_v n);
             n = n\<lparr>ExtractedData_v := data\<rparr>;
             state = state\<lparr>Variables := copy_into data (Variables state)\<rparr>
         in Inr (n, advance now (Base_v n) state))
      else Inr (n, advance now (Base_v n) state))"

subsection \<open>Well-formed nodes\<close>

text \<open>A node the constructors build: a gather node has a schema (its pointer is not nil).\<close>

definition schema_present :: "Node \<Rightarrow> bool" where
  "schema_present n = (case n of Say _ \<Rightarrow> True | Gather g \<Rightarrow> GatherSchema g \<noteq> None)"

subsection \<open>Example workflows\<close>

text \<open>The schema of \<open>TestGatherNode_Execute\<close>: \<open>name\<close> and \<open>email\<close> required, \<open>age\<close> optional.\<close>

definition profile_schema :: Definition where
  "profile_schema = Definition Object ''User Profile'' []
     [(''name'', Definition String ''User's full name'' [] [] [] False),
      (''age'', Definition Integer ''User's age in years'' [] [] [] False),
      (''email'', Definition String ''User's email address'' [] [] [] False)]
     [''name'', ''email''] False"

text \<open>The node and the state of that test.\<close>

definition profile_collector :: GatherNode where
  "profile_collector =
     \<lparr>GatherBase = \<lparr>NodeID = ''profile_collector'', NodeType = NodeTypeGather, NextNodeID = [],
                    NodeCreatedAt = 1, NodeLastUpdatedAt = 1\<rparr>,
      GatherSchema = Some profile_schema, MaxAttempts = 3,
      LLMPrompt = ''Extract the user profile information from the conversation.'',
      FallbackNodeID = [], FollowUpPrompt = [], ExtractedData = []\<rparr>"

definition test_state :: WorkflowState where
  "test_state =
     \<lparr>WorkflowID = ''test-workflow'', UserID = ''test-user'', CallID = ''test-call'',
      CurrentNodeID = ''profile_collector'', CompletedNodeIDs = [], Variables = [],
      LastMessageAt = 1, LastUpdatedAt = 1, IsComplete = False\<rparr>"

text \<open>The chain \<open>A\<close> (gather) to \<open>B\<close> (say, terminal), and an execution started at \<open>A\<close>.\<close>

definition gather_A :: GatherNode where
  "gather_A =
     \<lparr>GatherBase = \<lparr>NodeID = ''A'', NodeType = NodeTypeGather, NextNodeID = ''B'',
                    NodeCreatedAt = 1, NodeLastUpdatedAt = 1\<rparr>,
      GatherSchema = Some profile_schema, MaxAttempts = 3, LLMPrompt = ''Who is calling?'',
      FallbackNodeID = ''F'', FollowUpPrompt = [], ExtractedData = []\<rparr>"

definition say_B :: SayNode where
  "say_B =
     \<lparr>SayBase = \<lparr>NodeID = ''B'', NodeType = NodeTypeSay, NextNodeID = [],
                 NodeCreatedAt = 1, NodeLastUpdatedAt = 1\<rparr>,
      Message = ''Thank you.'', SayLLMPrompt = [], MessageType = ''exact''\<rparr>"

definition chain_workflow :: Workflow where
  "chain_workflow =
     \<lparr>WfID = ''intake'', Name = ''Intake'', WfDescription = [],
      Nodes = [(''A'', Gather gather_A), (''B'', Say say_B)],
      StartNodeID = ''A'', CreatedAt = 0, UpdatedAt = 0\<rparr>"

definition started_state :: WorkflowState where
  "started_state = (fresh_state ''intake'' ''user-1'' ''call-1'')\<lparr>CurrentNodeID := ''A''\<rparr>"

definition chain_world :: World where
  "chain_world =
     \<lparr>workflows = [''intake'' \<mapsto> chain_workflow],
      states = [(''intake'', ''user-1'', ''call-1'') \<mapsto> started_state],
      faults = [], clock = 10\<rparr>"

text \<open>The same execution after it completed, and one whose current node is no node.\<close>

definition completed_state :: WorkflowState where
  "completed_state =
     started_state\<lparr>CurrentNodeID := ''B'', CompletedNodeIDs := [''A'', ''B''],
                   LastMessageAt := 11, LastUpdatedAt := 13, IsComplete := True\<rparr>"

definition completed_world :: World where
  "completed_world =
     chain_world\<lparr>states := [(''intake'', ''user-1'', ''call-1'') \<mapsto> completed_state]\<rparr>"

definition lost_state :: WorkflowState where
  "lost_state = started_state\<lparr>CurrentNodeID := ''ghost''\<rparr>"

definition lost_world :: World where
  "lost_world = chain_world\<lparr>states := [(''intake'', ''user-1'', ''call-1'') \<mapsto> lost_state]\<rparr>"

text \<open>A say node that names itself as its successor.\<close>

definition say_loop :: SayNode where
  "say_loop =
     \<lparr>SayBase = \<lparr>NodeID = ''L'', NodeType = NodeTypeSay, NextNodeID = ''L'',
                 NodeCreatedAt = 1, NodeLastUpdatedAt = 1\<rparr>,
      Message = ''Please hold.'', SayLLMPrompt = [], MessageType = ''exact''\<rparr>"

definition loop_workflow :: Workflow where
  "loop_workflow =
     \<lparr>WfID = ''hold'', Name = ''Hold'', WfDescription = [], Nodes = [(''L'', Say say_loop)],
      StartNodeID = ''L'', CreatedAt = 0, UpdatedAt = 0\<rparr>"

definition loop_state :: WorkflowState where
  "loop_state = (fresh_state ''hold'' ''user-1'' ''call-1'')\<lparr>CurrentNodeID := ''L''\<rparr>"

definition loop_world :: World where
  "loop_world =
     \<lparr>workflows = [''hold'' \<mapsto> loop_workflow],
      states = [(''hold'', ''user-1'', ''call-1'') \<mapsto> loop_state],
      faults = [], clock = 10\<rparr>"

text \<open>
  Two gather nodes in a row. \<open>resumed_world\<close> is reached through the engine alone, from
  the empty storage: the workflow is created, an execution is started, and one
  conversation update moves it from \<open>A\<close> to \<open>B\<close>.
\<close>

definition gather_B :: GatherNode where
  "gather_B =
     \<lparr>GatherBase = \<lparr>NodeID = ''B'', NodeType = NodeTypeGather, NextNodeID = [],
                    NodeCreatedAt = 1, NodeLastUpdatedAt = 1\<rparr>,
      GatherSchema = Some profile_schema, MaxAttempts = 3, LLMPrompt = ''And your address?'',
      FallbackNodeID = [], FollowUpPrompt = [], ExtractedData = []\<rparr>"

definition survey_workflow :: Workflow where
  "survey_workflow =
     \<lparr>WfID = ''survey'', Name = ''Survey'', WfDescription = [],
      Nodes = [(''A'', Gather gather_A), (''B'', Gather gather_B)],
      StartNodeID = ''A'', CreatedAt = 0, UpdatedAt = 0\<rparr>"

definition survey_world :: World where
  "survey_world =
     \<lparr>workflows = [''survey'' \<mapsto> survey_workflow],
      states = [(''survey'', ''user-1'', ''call-1'') \<mapsto>
                  (fresh_state ''survey'' ''user-1'' ''call-1'')\<lparr>CurrentNodeID := ''A''\<rparr>],
      faults = [], clock = 10\<rparr>"

definition empty_world :: World where
  "empty_world = \<lparr>workflows = Map.empty, states = Map.empty, faults = [], clock = 0\<rparr>"

definition resumed_world :: World where
  "resumed_world =
     snd (ProcessConversationUpdate ''survey'' ''user-1'' ''call-1'' []
       (snd (StartWorkflow ''survey'' ''user-1'' ''call-1''
         (snd (CreateWorkflow survey_workflow empty_world)))))"

text \<open>A say node with a message type that is neither \<open>"exact"\<close> nor \<open>"generated"\<close>.\<close>

definition say_shout :: SayNode where
  "say_shout = say_B\<lparr>MessageType := ''shout''\<rparr>"

text \<open>A gather node whose only property is required and nullable.\<close>

definition nullable_schema :: Definition where
  "nullable_schema = Definition Object ''Caller'' []
     [(''nickname'', Definition String ''Preferred name'' [] [] [] True)]
     [''nickname''] False"

definition gather_nullable :: GatherNode where
  "gather_nullable = gather_A\<lparr>GatherSchema := Some nullable_schema\<rparr>"

section \<open>Properties\<close>

subsection \<open>A reliable storage\<close>

text \<open>With an empty tape of faults every storage call succeeds and leaves the tape empty.\<close>

lemma fault_reliable: "faults w = [] \<Longrightarrow> fault w = (False, w)"
  by (simp add: fault_def)

lemma GetWorkflow_reliable:
  "faults w = [] \<Longrightarrow> GetWorkflow workflowID w = (Inr (workflows w workflowID), w)"
  by (simp add: GetWorkflow_def fault_reliable)

lemma GetWorkflowState_reliable:
  "faults w = [] \<Longrightarrow> GetWorkflowState workflowID userID callID w =
     (Inr (case states w (workflowID, userID, callID) of
             Some state \<Rightarrow> state | None \<Rightarrow> fresh_state workflowID userID callID), w)"
  by (simp add: GetWorkflowState_def fault_reliable)

lemma SaveWorkflowState_reliable:
  "faults w = [] \<Longrightarrow> SaveWorkflowState state w =
     (Inr (), w\<lparr>states := (states w)((WorkflowID state, UserID state, CallID state) \<mapsto> state)\<rparr>)"
  by (simp add: SaveWorkflowState_def fault_reliable)

lemma SaveWorkflow_reliable:
  "faults w = [] \<Longrightarrow> SaveWorkflow workflow w =
     (Inr (), w\<lparr>workflows := (workflows w)(WfID workflow \<mapsto> workflow)\<rparr>)"
  by (simp add: SaveWorkflow_def fault_reliable)

subsection \<open>What a storage call can change\<close>

lemma GetWorkflow_effect:
  assumes "GetWorkflow workflowID w = (r, w')"
  shows "workflows w' = workflows w" "states w' = states w" "clock w' = clock w"
    and "r = Inl StorageFailure \<or> r = Inr (workflows w workflowID)"
  using assms by (auto simp: GetWorkflow_def fault_def split: list.splits bool.splits)

lemma GetWorkflowState_effect:
  assumes "GetWorkflowState workflowID userID callID w = (r, w')"
  shows "workflows w' = workflows w" "states w' = states w" "clock w' = clock w"
    and "r = Inl StorageFailure \<or>
         r = Inr (case states w (workflowID, userID, callID) of
                    Some state \<Rightarrow> state | None \<Rightarrow> fresh_state workflowID userID callID)"
  using assms by (auto simp: GetWorkflowState_def fault_def split: list.splits bool.splits)

lemma SaveWorkflowState_effect:
  assumes "SaveWorkflowState state w = (r, w')"
  shows "workflows w' = workflows w" "clock w' = clock w"
    and "r = Inl StorageFailure \<and> states w' = states w \<or>
         r = Inr () \<and>
         states w' = (states w)((WorkflowID state, UserID state, CallID state) \<mapsto> state)"
  using assms by (auto simp: SaveWorkflowState_def fault_def split: list.splits bool.splits)

lemma succeeded:
  assumes "\<not> isl (fst p)"
  obtains r w where "p = (Inr r, w)"
  using assms by (cases p; cases "fst p") auto

subsection \<open>What \<open>Execute\<close> does to the state\<close>

lemma advance_fields:
  "CompletedNodeIDs (advance now b state) = CompletedNodeIDs state @ [NodeID b]"
  "IsComplete (advance now b state) = (IsComplete state \<or> NextNodeID b = [])"
  "CurrentNodeID (advance now b state) =
     (if NextNodeID b \<noteq> [] then NextNodeID b else CurrentNodeID state)"
  "WorkflowID (advance now b state) = WorkflowID state"
  "UserID (advance now b state) = UserID state"
  "CallID (advance now b state) = CallID state"
  "LastMessageAt (advance now b state) = LastMessageAt state"
  "LastUpdatedAt (advance now b state) = now"
  by (simp_all add: advance_def Let_def)

lemma Execute_Say_ok:
  "\<exists>state'. Execute now (Say n) state = Inr (Say n, state')"
  by (simp add: SayNode_Execute_def Let_def)

lemma Execute_Gather_ok:
  assumes "GatherSchema g = Some schema"
  shows "\<exists>g' state'. Execute now (Gather g) state = Inr (Gather g', state')"
  using assms by (simp add: GatherNode_Execute_def Let_def)

lemma Execute_shape:
  assumes "Execute now n state = Inr (n', state')"
  shows "CompletedNodeIDs state' = CompletedNodeIDs state @ [ID n]"
    and "IsComplete state' = (IsComplete state \<or> NextNodeID (Base n) = [])"
    and "CurrentNodeID state' =
           (if NextNodeID (Base n) \<noteq> [] then NextNodeID (Base n) else CurrentNodeID state)"
    and "Base n' = Base n"
    and "WorkflowID state' = WorkflowID state"
    and "UserID state' = UserID state"
    and "CallID state' = CallID state"
  using assms
  by (cases n; auto simp: SayNode_Execute_def GatherNode_Execute_def Let_def advance_fields ID_def
        split: option.splits if_splits)+

text \<open>The only error the engine's \<open>Execute\<close> can produce is the panic on a missing schema.\<close>

lemma Execute_error:
  assumes "Execute now n state = Inl e"
  shows "\<not> schema_present n \<and> e = Panic ''nil pointer dereference''"
  using assms
  by (cases n)
    (auto simp: SayNode_Execute_def GatherNode_Execute_def schema_present_def Let_def
      split: option.splits if_splits)

text \<open>
  With the signature \<open>Execute(ctx, state, messages)\<close>, the say node returns an error
  exactly for a message type that is neither \<open>"exact"\<close> nor \<open>"generated"\<close>, and the gather
  node returns none, whatever is or is not extracted.
\<close>

lemma SayNode_Execute_messages_error:
  "(\<exists>e. SayNode_Execute_messages now n state messages = Inl e) \<longleftrightarrow>
     MessageType n \<noteq> ''exact'' \<and> MessageType n \<noteq> ''generated''"
  by (auto simp: SayNode_Execute_messages_def)

lemma GatherNode_Execute_messages_ok:
  assumes "GatherSchema n = Some schema"
  shows "\<exists>state'. GatherNode_Execute_messages now n state messages = Inr (n, state')"
  using assms by (simp add: GatherNode_Execute_messages_def getMissingProperties_def)

lemma Execute_messages_error:
  "(\<exists>e. Execute_messages now n state messages = Inl e) \<longleftrightarrow>
     (case n of
        Say sy \<Rightarrow> MessageType sy \<noteq> ''exact'' \<and> MessageType sy \<noteq> ''generated''
      | Gather g \<Rightarrow> GatherSchema g = None)"
  by (cases n)
    (auto simp: SayNode_Execute_messages_def GatherNode_Execute_messages_def
      getMissingProperties_def split: option.splits)

subsection \<open>Gather nodes have no failure path\<close>

text \<open>
  No \<open>Execute\<close> of a gather node calls an extraction capability that could fail: the
  extraction is simulated in line. The schema-based method returns no error when the
  node has a schema, and the variable-list method of package \<open>workflows\<close> returns none
  at all.
\<close>

lemma GatherNode_Execute_never_fails:
  assumes "GatherSchema g = Some schema"
  shows "\<exists>g' state'. GatherNode_Execute now g state = Inr (g', state')"
  using assms by (simp add: GatherNode_Execute_def Let_def)

lemma GatherNode_workflows_Execute_never_fails:
  "\<exists>v' state'. GatherNode_workflows_Execute now v state = Inr (v', state')"
  by (simp add: GatherNode_workflows_Execute_def Let_def)

text \<open>
  Neither method reads \<open>MaxAttempts\<close> or \<open>FallbackNodeID\<close>: the result is the same for
  every value of the two fields, and the execution moves to \<open>NextNodeID\<close> or, when that
  is empty, stays at its node and completes.
\<close>

lemma GatherNode_Execute_ignores_attempts_and_fallback:
  "GatherNode_Execute now (g\<lparr>MaxAttempts := m, FallbackNodeID := f\<rparr>) state =
     map_sum id (\<lambda>(g', state'). (g'\<lparr>MaxAttempts := m, FallbackNodeID := f\<rparr>, state'))
       (GatherNode_Execute now g state)"
  by (simp add: GatherNode_Execute_def Let_def split: option.splits)

lemma GatherNode_workflows_Execute_ignores_attempts_and_fallback:
  "GatherNode_workflows_Execute now (v\<lparr>MaxAttempts_v := m, FallbackNodeID_v := f\<rparr>) state =
     map_sum id (\<lambda>(v', state'). (v'\<lparr>MaxAttempts_v := m, FallbackNodeID_v := f\<rparr>, state'))
       (GatherNode_workflows_Execute now v state)"
  by (simp add: GatherNode_workflows_Execute_def Let_def)

lemma GatherNode_Execute_moves_on:
  assumes "GatherNode_Execute now g state = Inr (g', state')"
  shows "CurrentNodeID state' =
           (if NextNodeID (GatherBase g) \<noteq> [] then NextNodeID (GatherBase g)
            else CurrentNodeID state)"
    and "IsComplete state' = (IsComplete state \<or> NextNodeID (GatherBase g) = [])"
  using assms
  by (auto simp: GatherNode_Execute_def Let_def advance_fields split: option.splits if_splits)

subsection \<open>Missing properties\<close>

lemma missing_required_sound:
  assumes "propName \<in> set (missing_required schema extracted)"
  shows "propName \<in> set (Required schema)" and "map_of extracted propName = None"
  using assms by (auto simp: missing_required_def split: if_splits)

lemma getMissingProperties_sound:
  assumes "getMissingProperties n = Inr missing" and "GatherSchema n = Some schema"
    and "propName \<in> set missing"
  shows "propName \<in> set (Required schema)"
    and "\<exists>propDef. (propName, propDef) \<in> set (Properties schema) \<and> \<not> Nullable propDef"
  using assms by (auto simp: getMissingProperties_def split: if_splits) blast

text \<open>
  The revision of the gather node that the engine calls meets the expectations of
  \<open>TestGatherNode_Execute\<close>: after the execution the variables hold \<open>name\<close> and \<open>email\<close>
  (and not the optional \<open>age\<close>), and the node is the whole history.
\<close>

lemma gather_test_expectations:
  "map_sum id (\<lambda>(n, state). (map (map_of (Variables state)) [''name'', ''email'', ''age''],
                                 CompletedNodeIDs state))
     (GatherNode_Execute 5 profile_collector test_state) =
   Inr ([Some (VString ''Sample name''), Some (VString ''Sample email''), None],
        [''profile_collector''])"
  by code_simp

subsection \<open>One conversation update on a reliable storage\<close>

lemma ProcessConversationUpdate_reliable:
  assumes "faults w = []"
    and "workflows w workflowID = Some workflow"
    and "states w (workflowID, userID, callID) = Some state"
    and "\<not> IsComplete state"
    and "map_of (Nodes workflow) (CurrentNodeID state) = Some currentNode"
    and "Execute (Suc (Suc (clock w))) currentNode (state\<lparr>LastMessageAt := Suc (clock w)\<rparr>) =
           Inr (currentNode', state')"
  shows "ProcessConversationUpdate workflowID userID callID messages w =
           auto_advance
             (workflow\<lparr>Nodes := AList.update (CurrentNodeID state) currentNode' (Nodes workflow)\<rparr>)
             currentNode' state'
             (w\<lparr>clock := Suc (Suc (clock w)),
                states := (states w)((WorkflowID state', UserID state', CallID state') \<mapsto> state')\<rparr>)"
  using assms
  by (simp add: ProcessConversationUpdate_def GetWorkflow_reliable GetWorkflowState_reliable
      SaveWorkflowState_reliable time_Now_def Let_def)

lemma auto_advance_stay:
  assumes "IsComplete state \<or> CurrentNodeID state = ID currentNode"
  shows "auto_advance workflow currentNode state w = (Inr state, w)"
  using assms by (auto simp: auto_advance_def)


text \<open>The ids that a successful second half appends to the history.\<close>

lemma auto_advance_trace:
  assumes "auto_advance workflow currentNode state w = (Inr state', w')"
  shows "CompletedNodeIDs state' = CompletedNodeIDs state @
           (case map_of (Nodes workflow) (CurrentNodeID state) of
              None \<Rightarrow> []
            | Some nextNode \<Rightarrow>
                if \<not> IsComplete state \<and> CurrentNodeID state \<noteq> ID currentNode \<and>
                   Type_of nextNode = NodeTypeSay
                then [ID nextNode] else [])"
proof (cases "\<not> IsComplete state \<and> CurrentNodeID state \<noteq> ID currentNode")
  case False
  then show ?thesis using assms by (auto simp: auto_advance_def split: option.splits)
next
  case adv: True
  show ?thesis
  proof (cases "map_of (Nodes workflow) (CurrentNodeID state)")
    case None
    then show ?thesis using assms adv by (auto simp: auto_advance_def)
  next
    case (Some nextNode)
    show ?thesis
    proof (cases "Type_of nextNode = NodeTypeSay")
      case False
      then show ?thesis using assms adv Some by (auto simp: auto_advance_def)
    next
      case True
      obtain n' where ex: "Execute (Suc (clock w)) nextNode state = Inr (n', state')"
        using assms adv Some True
        by (auto simp: auto_advance_def time_Now_def split: sum.splits prod.splits)
      show ?thesis using Execute_shape(1) [OF ex] adv Some True by simp
    qed
  qed
qed

text \<open>An execution that has started is resumed as it is.\<close>

lemma StartWorkflow_resume:
  assumes "faults w = []"
    and "workflows w workflowID = Some workflow"
    and "states w (workflowID, userID, callID) = Some state"
    and "CurrentNodeID state \<noteq> []"
  shows "StartWorkflow workflowID userID callID w = (Inr state, w)"
  using assms
  by (simp add: StartWorkflow_def GetWorkflow_reliable GetWorkflowState_reliable)

text \<open>\<open>StartWorkflow\<close> of package \<open>workflows\<close>, which always saves, is idempotent as well.\<close>

lemma start_idempotent_workflows:
  assumes "StartWorkflow_workflows workflowID userID callID w = (Inr state, w1)"
    and "faults w1 = []"
  shows "StartWorkflow_workflows workflowID userID callID w1 = (Inr state, w1)"
proof -
  obtain workflow wa where gw: "GetWorkflow workflowID w = (Inr (Some workflow), wa)"
    using assms(1)
    by (auto simp: StartWorkflow_workflows_def GetWorkflow_workflows_def
        split: prod.splits sum.splits option.splits)
  obtain state0 wb where gs: "GetWorkflowState workflowID userID callID wa = (Inr state0, wb)"
    using assms(1) gw
    by (auto simp: StartWorkflow_workflows_def GetWorkflow_workflows_def
        split: prod.splits sum.splits option.splits)
  have wf_wa: "workflows wa workflowID = Some workflow" "states wa = states w"
    using GetWorkflow_effect [OF gw] by auto
  have wb: "workflows wb = workflows wa" "states wb = states wa"
    and state0: "state0 = (case states wa (workflowID, userID, callID) of
                   Some s \<Rightarrow> s | None \<Rightarrow> fresh_state workflowID userID callID)"
    using GetWorkflowState_effect [OF gs] by auto
  have st: "state = (if CurrentNodeID state0 = []
                     then state0\<lparr>CurrentNodeID := StartNodeID workflow\<rparr> else state0)"
    and sv: "SaveWorkflowState state wb = (Inr (), w1)"
    using assms(1) gw gs
    by (auto simp: StartWorkflow_workflows_def GetWorkflow_workflows_def Let_def
        split: prod.splits sum.splits)
  have w1: "workflows w1 = workflows wb"
    "states w1 = (states wb)((WorkflowID state, UserID state, CallID state) \<mapsto> state)"
    using SaveWorkflowState_effect [OF sv] by auto
  have idem: "w1\<lparr>states := (states w1)((WorkflowID state, UserID state, CallID state) \<mapsto> state)\<rparr> = w1"
    using w1 by simp
  have again: "(if CurrentNodeID state = [] then state\<lparr>CurrentNodeID := StartNodeID workflow\<rparr>
                else state) = state"
    using st by auto
  show ?thesis
  proof (cases "(WorkflowID state, UserID state, CallID state) = (workflowID, userID, callID)")
    case same: True
    then have "states w1 (workflowID, userID, callID) = Some state"
      using w1 by simp
    then show ?thesis
      using assms(2) wf_wa wb w1 idem again
      by (simp add: StartWorkflow_workflows_def GetWorkflow_workflows_def GetWorkflow_reliable
          GetWorkflowState_reliable SaveWorkflowState_reliable Let_def)
  next
    case other: False
    then have "states w1 (workflowID, userID, callID) = states wa (workflowID, userID, callID)"
      using w1 wb by auto
    then show ?thesis
      using assms(2) wf_wa wb w1 idem st state0
      by (auto simp: StartWorkflow_workflows_def GetWorkflow_workflows_def GetWorkflow_reliable
          GetWorkflowState_reliable SaveWorkflowState_reliable Let_def)
  qed
qed

lemmas example_defs =
  chain_world_def chain_workflow_def gather_A_def say_B_def started_state_def fresh_state_def
  completed_world_def completed_state_def lost_world_def lost_state_def
  loop_world_def loop_workflow_def loop_state_def say_loop_def
  survey_world_def survey_workflow_def gather_B_def empty_world_def profile_schema_def
  NodeTypeSay_def NodeTypeGather_def

section \<open>The claims\<close>

subsection \<open>C1: the chain gather, then terminal say\<close>



subsection \<open>C2: a complete execution is left alone\<close>

text \<open>
  Claim C2. When the stored state of an execution is complete, a further call of
  \<open>ProcessConversationUpdate\<close> returns exactly that state and changes nothing: the
  storage, the clock and every field of the state, \<open>LastMessageAt\<close> included, are as
  before. The workflow is in the storage and the storage is reliable.
\<close>

theorem terminal_idempotence:
  assumes "faults w = []"
    and "workflows w workflowID = Some workflow"
    and "states w (workflowID, userID, callID) = Some state"
    and "IsComplete state"
  shows "ProcessConversationUpdate workflowID userID callID messages w = (Inr state, w)"
  using assms
  by (simp add: ProcessConversationUpdate_def GetWorkflow_reliable GetWorkflowState_reliable)

theorem terminal_idempotence_witness:
  "ProcessConversationUpdate ''intake'' ''user-1'' ''call-1'' [] completed_world =
     (Inr completed_state, completed_world)"
  using terminal_idempotence [where w = completed_world and workflowID = "''intake''"
      and workflow = chain_workflow and userID = "''user-1''" and callID = "''call-1''"
      and state = completed_state and messages = "[]"]
  by (simp add: example_defs)

subsection \<open>C3: create, then start\<close>

text \<open>
  Claim C3, as stated, fails: \<open>StartWorkflow\<close> resumes an execution that has already
  started, so for a triple with a started state the current node is the one the
  execution had reached, not the start node. In \<open>resumed_world\<close> the execution of the
  survey has moved from \<open>A\<close> to \<open>B\<close>; creating the (valid) workflow again succeeds, and
  starting the same triple answers \<open>B\<close> while the start node is \<open>A\<close>.
\<close>

theorem create_then_start_counterexample:
  "WfID survey_workflow \<noteq> [] \<and> Nodes survey_workflow \<noteq> [] \<and>
   map_of (Nodes survey_workflow) (StartNodeID survey_workflow) \<noteq> None \<and>
   fst (CreateWorkflow survey_workflow resumed_world) = Inr () \<and>
   map_sum id CurrentNodeID
     (fst (StartWorkflow (WfID survey_workflow) ''user-1'' ''call-1''
             (snd (CreateWorkflow survey_workflow resumed_world)))) = Inr ''B'' \<and>
   StartNodeID survey_workflow = ''A''"
  by code_simp

text \<open>
  Claim C3, amended. For every workflow with a non-empty id and a non-empty start node
  id that is a key of its nodes, on a reliable storage, \<open>CreateWorkflow\<close> succeeds and a
  following \<open>StartWorkflow\<close> for any user and call succeeds. For a triple that has not
  started (no stored state, or a stored state with an empty current node) the state it
  returns has the start node of the workflow as its current node. For a triple that
  has already started it returns the stored state as it is, whatever its current node,
  and changes nothing.
\<close>

theorem create_then_start:
  assumes "faults w = []"
    and "WfID W \<noteq> []" and "StartNodeID W \<noteq> []"
    and "map_of (Nodes W) (StartNodeID W) \<noteq> None"
  shows "\<exists>w1 state w2. CreateWorkflow W w = (Inr (), w1) \<and>
           StartWorkflow (WfID W) userID callID w1 = (Inr state, w2) \<and>
           (case states w (WfID W, userID, callID) of
              None \<Rightarrow> CurrentNodeID state = StartNodeID W
            | Some stored \<Rightarrow>
                if CurrentNodeID stored = [] then CurrentNodeID state = StartNodeID W
                else state = stored \<and> w2 = w1)"
proof -
  have ne: "Nodes W \<noteq> []" using assms(4) by auto
  let ?now = "Suc (clock w)"
  let ?W = "(if CreatedAt W = 0 then W\<lparr>CreatedAt := ?now\<rparr> else W)\<lparr>UpdatedAt := ?now\<rparr>"
  let ?w1 = "w\<lparr>clock := ?now, workflows := (workflows w)(WfID W \<mapsto> ?W)\<rparr>"
  have c: "CreateWorkflow W w = (Inr (), ?w1)"
    using assms(1-4) ne
    by (auto simp: CreateWorkflow_def time_Now_def SaveWorkflow_reliable Let_def)
  have w1: "faults ?w1 = []" "workflows ?w1 (WfID W) = Some ?W" "states ?w1 = states w"
    using assms(1) by simp_all
  show ?thesis
  proof (cases "states w (WfID W, userID, callID)")
    case None
    then have "\<exists>state w2. StartWorkflow (WfID W) userID callID ?w1 = (Inr state, w2) \<and>
                 CurrentNodeID state = StartNodeID W"
      using assms(1)
      by (auto simp: StartWorkflow_def GetWorkflow_reliable GetWorkflowState_reliable
          SaveWorkflowState_reliable Let_def fresh_state_def)
    with c None show ?thesis by auto
  next
    case (Some stored)
    show ?thesis
    proof (cases "CurrentNodeID stored = []")
      case True
      then have "\<exists>state w2. StartWorkflow (WfID W) userID callID ?w1 = (Inr state, w2) \<and>
                   CurrentNodeID state = StartNodeID W"
        using assms(1) Some
        by (auto simp: StartWorkflow_def GetWorkflow_reliable GetWorkflowState_reliable
            SaveWorkflowState_reliable Let_def)
      with c Some True show ?thesis by auto
    next
      case False
      have "StartWorkflow (WfID W) userID callID ?w1 = (Inr stored, ?w1)"
        by (rule StartWorkflow_resume [OF w1(1,2) _ False]) (simp add: Some)
      with c Some False show ?thesis by auto
    qed
  qed
qed

theorem create_then_start_witness:
  "(\<exists>w1 state w2. CreateWorkflow chain_workflow empty_world = (Inr (), w1) \<and>
      StartWorkflow ''intake'' ''user-1'' ''call-1'' w1 = (Inr state, w2) \<and>
      CurrentNodeID state = ''A'') \<and>
   (\<exists>w1 state. CreateWorkflow survey_workflow resumed_world = (Inr (), w1) \<and>
      StartWorkflow ''survey'' ''user-1'' ''call-1'' w1 = (Inr state, w1) \<and>
      states resumed_world (''survey'', ''user-1'', ''call-1'') = Some state \<and>
      CurrentNodeID state = ''B'')"
proof -
  have fresh: "\<exists>w1 state w2. CreateWorkflow chain_workflow empty_world = (Inr (), w1) \<and>
      StartWorkflow ''intake'' ''user-1'' ''call-1'' w1 = (Inr state, w2) \<and>
      CurrentNodeID state = ''A''"
    using create_then_start [where w = empty_world and W = chain_workflow
        and userID = "''user-1''" and callID = "''call-1''"]
    by (simp add: example_defs)
  have reliable: "faults resumed_world = []"
    by code_simp
  obtain stored where stored: "states resumed_world (''survey'', ''user-1'', ''call-1'') = Some stored"
    and at_B: "CurrentNodeID stored = ''B''"
  proof -
    have "map_option CurrentNodeID (states resumed_world (''survey'', ''user-1'', ''call-1'')) =
            Some ''B''"
      by code_simp
    then show ?thesis using that by auto
  qed
  have "\<exists>w1 state. CreateWorkflow survey_workflow resumed_world = (Inr (), w1) \<and>
      StartWorkflow ''survey'' ''user-1'' ''call-1'' w1 = (Inr state, w1) \<and>
      states resumed_world (''survey'', ''user-1'', ''call-1'') = Some state \<and>
      CurrentNodeID state = ''B''"
    using create_then_start [where w = resumed_world and W = survey_workflow
        and userID = "''user-1''" and callID = "''call-1''", OF reliable] stored at_B
    by (auto simp: survey_workflow_def)
  with fresh show ?thesis by simp
qed

subsection \<open>C4: starting twice\<close>

text \<open>
  Claim C4. \<open>StartWorkflow\<close> is idempotent: when a call for a triple has succeeded with a
  state, a second call for the same triple (on a storage that does not fail) returns
  the same state, its current node included, and leaves the storage as the first call
  left it.
\<close>

theorem start_idempotent:
  assumes "StartWorkflow workflowID userID callID w = (Inr state, w1)"
    and "faults w1 = []"
  shows "StartWorkflow workflowID userID callID w1 = (Inr state, w1)"
proof -
  obtain workflow wa where gw: "GetWorkflow workflowID w = (Inr (Some workflow), wa)"
    using assms(1)
    by (auto simp: StartWorkflow_def split: prod.splits sum.splits option.splits)
  obtain state0 wb where gs: "GetWorkflowState workflowID userID callID wa = (Inr state0, wb)"
    using assms(1) gw
    by (auto simp: StartWorkflow_def split: prod.splits sum.splits option.splits)
  have wf_wa: "workflows wa workflowID = Some workflow" "states wa = states w"
    using GetWorkflow_effect [OF gw] by auto
  have wb: "workflows wb = workflows wa" "states wb = states wa"
    and state0: "state0 = (case states wa (workflowID, userID, callID) of
                   Some s \<Rightarrow> s | None \<Rightarrow> fresh_state workflowID userID callID)"
    using GetWorkflowState_effect [OF gs] by auto
  show ?thesis
  proof (cases "CurrentNodeID state0 = []")
    case False
    then have "state = state0" "w1 = wb"
      using assms(1) gw gs by (auto simp: StartWorkflow_def)
    then show ?thesis
      using False assms(2) wf_wa wb state0
      by (simp add: StartWorkflow_def GetWorkflow_reliable GetWorkflowState_reliable)
  next
    case True
    then have st: "state = state0\<lparr>CurrentNodeID := StartNodeID workflow\<rparr>"
      and sv: "SaveWorkflowState state wb = (Inr (), w1)"
      using assms(1) gw gs
      by (auto simp: StartWorkflow_def Let_def split: prod.splits sum.splits)
    have w1: "workflows w1 = workflows wb"
      "states w1 = (states wb)((WorkflowID state, UserID state, CallID state) \<mapsto> state)"
      using SaveWorkflowState_effect [OF sv] by auto
    have idem: "w1\<lparr>states := (states w1)((WorkflowID state, UserID state, CallID state) \<mapsto> state)\<rparr> = w1"
      using w1 by simp
    show ?thesis
    proof (cases "(WorkflowID state, UserID state, CallID state) = (workflowID, userID, callID)")
      case same: True
      then have "states w1 (workflowID, userID, callID) = Some state"
        using w1 by simp
      then show ?thesis
        using assms(2) wf_wa wb w1 idem st same
        by (auto simp: StartWorkflow_def GetWorkflow_reliable GetWorkflowState_reliable
            SaveWorkflowState_reliable Let_def)
    next
      case other: False
      then have "states w1 (workflowID, userID, callID) = states wa (workflowID, userID, callID)"
        using w1 wb by auto
      then show ?thesis
        using assms(2) wf_wa wb w1 idem st True state0
        by (auto simp: StartWorkflow_def GetWorkflow_reliable GetWorkflowState_reliable
            SaveWorkflowState_reliable Let_def)
    qed
  qed
qed

theorem start_idempotent_witness:
  "StartWorkflow ''intake'' ''user-1'' ''call-1'' (chain_world\<lparr>states := Map.empty\<rparr>) =
     (Inr started_state, chain_world) \<and>
   StartWorkflow ''intake'' ''user-1'' ''call-1'' chain_world = (Inr started_state, chain_world)"
proof -
  have first: "StartWorkflow ''intake'' ''user-1'' ''call-1'' (chain_world\<lparr>states := Map.empty\<rparr>) =
                 (Inr started_state, chain_world)"
    by (simp add: StartWorkflow_def GetWorkflow_reliable GetWorkflowState_reliable
        SaveWorkflowState_reliable Let_def example_defs)
  have "faults chain_world = []" by (simp add: chain_world_def)
  from start_idempotent [OF first this] first show ?thesis by simp
qed

subsection \<open>C5: the auto-advance rule\<close>

text \<open>
  Claim C5. Every successful call of \<open>ProcessConversationUpdate\<close> on an execution that is
  not complete executes the current node and then at most one node more. The history
  grows by the id of the current node, followed by the id of its successor exactly when
  the execution moved on to a new node (the current node has a successor id, other than
  its own id), that node exists and its type is \<open>say\<close>. A successor of any other type,
  a gather node in particular, is not executed in the call.
\<close>

theorem auto_advance_rule:
  assumes "workflows w workflowID = Some workflow"
    and "states w (workflowID, userID, callID) = Some state"
    and "\<not> IsComplete state"
    and "map_of (Nodes workflow) (CurrentNodeID state) = Some currentNode"
    and "ProcessConversationUpdate workflowID userID callID messages w = (Inr state', w')"
  shows "CompletedNodeIDs state' = CompletedNodeIDs state @ ID currentNode #
           (case map_of (Nodes workflow) (NextNodeID (Base currentNode)) of
              None \<Rightarrow> []
            | Some nextNode \<Rightarrow>
                if NextNodeID (Base currentNode) \<noteq> [] \<and>
                   NextNodeID (Base currentNode) \<noteq> ID currentNode \<and>
                   Type_of nextNode = NodeTypeSay
                then [ID nextNode] else [])"
proof -
  obtain wa where gw: "GetWorkflow workflowID w = (Inr (Some workflow), wa)"
    using assms(5) GetWorkflow_effect(4) [of workflowID w] assms(1)
    by (auto simp: ProcessConversationUpdate_def split: prod.splits sum.splits option.splits)
  obtain wb where gs: "GetWorkflowState workflowID userID callID wa = (Inr state, wb)"
    using assms(5) gw GetWorkflow_effect(2) [OF gw]
      GetWorkflowState_effect(4) [of workflowID userID callID wa] assms(2)
    by (auto simp: ProcessConversationUpdate_def split: prod.splits sum.splits option.splits)
  let ?s0 = "state\<lparr>LastMessageAt := Suc (clock wb)\<rparr>"
  obtain n1 s1 where ex1: "Execute (Suc (Suc (clock wb))) currentNode ?s0 = Inr (n1, s1)"
    using assms(3,4,5) gw gs
    by (auto simp: ProcessConversationUpdate_def time_Now_def Let_def
        split: prod.splits sum.splits option.splits)
  let ?workflow = "workflow\<lparr>Nodes := AList.update (CurrentNodeID state) n1 (Nodes workflow)\<rparr>"
  obtain wd where adv: "auto_advance ?workflow n1 s1 wd = (Inr state', w')"
    using assms(3,4,5) gw gs ex1
    by (auto simp: ProcessConversationUpdate_def time_Now_def Let_def
        split: prod.splits sum.splits option.splits)
  have s1: "CompletedNodeIDs s1 = CompletedNodeIDs state @ [ID currentNode]"
    "IsComplete s1 = (NextNodeID (Base currentNode) = [])"
    "CurrentNodeID s1 = (if NextNodeID (Base currentNode) \<noteq> [] then NextNodeID (Base currentNode)
                         else CurrentNodeID state)"
    and n1: "Base n1 = Base currentNode"
    using Execute_shape(1-4) [OF ex1] assms(3) by simp_all
  have look: "map_of (Nodes ?workflow) k =
                (if k = CurrentNodeID state then Some n1 else map_of (Nodes workflow) k)" for k
    by (simp add: update_conv')
  show ?thesis
    using auto_advance_trace [OF adv] s1 n1 look assms(4)
    by (auto simp: ID_def Type_of_def split: option.splits if_splits)
qed

theorem auto_advance_rule_witness:
  "(\<exists>state' w'. ProcessConversationUpdate ''survey'' ''user-1'' ''call-1'' [] survey_world =
       (Inr state', w') \<and> CompletedNodeIDs state' = [''A'']) \<and>
   (\<exists>state' w'. ProcessConversationUpdate ''intake'' ''user-1'' ''call-1'' [] chain_world =
       (Inr state', w') \<and> CompletedNodeIDs state' = [''A'', ''B''])"
proof -
  have "\<not> isl (fst (ProcessConversationUpdate ''survey'' ''user-1'' ''call-1'' [] survey_world))"
    by code_simp
  then obtain s1 w1 where r1: "ProcessConversationUpdate ''survey'' ''user-1'' ''call-1'' [] survey_world =
      (Inr s1, w1)"
    by (rule succeeded)
  have "\<not> isl (fst (ProcessConversationUpdate ''intake'' ''user-1'' ''call-1'' [] chain_world))"
    by code_simp
  then obtain s2 w2 where r2: "ProcessConversationUpdate ''intake'' ''user-1'' ''call-1'' [] chain_world =
      (Inr s2, w2)"
    by (rule succeeded)
  have "CompletedNodeIDs s1 = [''A'']"
    using auto_advance_rule [where w = survey_world and workflow = survey_workflow
        and state = "(fresh_state ''survey'' ''user-1'' ''call-1'')\<lparr>CurrentNodeID := ''A''\<rparr>"
        and currentNode = "Gather gather_A", OF _ _ _ _ r1]
    by (simp add: example_defs ID_def Type_of_def)
  moreover have "CompletedNodeIDs s2 = [''A'', ''B'']"
    using auto_advance_rule [where w = chain_world and workflow = chain_workflow
        and state = started_state and currentNode = "Gather gather_A", OF _ _ _ _ r2]
    by (simp add: example_defs ID_def Type_of_def)
  ultimately show ?thesis using r1 r2 by simp
qed

subsection \<open>C6: a current node that is no node\<close>

text \<open>
  Claim C6. When the stored state of an execution is not complete and its current node
  id is not a key of the nodes of the workflow, \<open>ProcessConversationUpdate\<close> fails with
  \<open>ErrNodeNotFound\<close> carrying that id, and the states and the workflows held by the
  storage are as before the call. The workflow is in the storage and the storage is
  reliable.
\<close>

theorem unknown_node_fault:
  assumes "faults w = []"
    and "workflows w workflowID = Some workflow"
    and "states w (workflowID, userID, callID) = Some state"
    and "\<not> IsComplete state"
    and "map_of (Nodes workflow) (CurrentNodeID state) = None"
  shows "\<exists>w'. ProcessConversationUpdate workflowID userID callID messages w =
           (Inl (ErrNodeNotFound (CurrentNodeID state)), w') \<and>
         states w' = states w \<and> workflows w' = workflows w"
  using assms
  by (simp add: ProcessConversationUpdate_def GetWorkflow_reliable GetWorkflowState_reliable
      time_Now_def)

theorem unknown_node_fault_witness:
  "\<exists>w'. ProcessConversationUpdate ''intake'' ''user-1'' ''call-1'' [] lost_world =
       (Inl (ErrNodeNotFound ''ghost''), w') \<and>
     states w' = states lost_world \<and> workflows w' = workflows lost_world"
  using unknown_node_fault [where w = lost_world and workflowID = "''intake''"
      and workflow = chain_workflow and userID = "''user-1''" and callID = "''call-1''"
      and state = lost_state and messages = "[]"]
  by (simp add: example_defs)

subsection \<open>C7: a say node with an unsupported message type\<close>

text \<open>
  Claim C7 says that \<open>Execute\<close> returns an error for every say node whose message type is
  unsupported. The method the engine calls does not: on the node \<open>say_shout\<close> (message
  type \<open>shout\<close>) it returns no error, records the empty message as \<open>lastSayMessage\<close> and
  completes the execution. The method with the signature \<open>Execute(ctx, state, messages)\<close>
  rejects the same node with the error \<open>invalid message type: shout\<close>.
\<close>

theorem say_unsupported_message_type_no_error:
  "SayNode_Execute 7 say_shout started_state =
     Inr (started_state\<lparr>Variables := [(''lastSayMessage'', VString [])],
            CompletedNodeIDs := [''B''], IsComplete := True, LastUpdatedAt := 7\<rparr>) \<and>
   SayNode_Execute_messages 7 say_shout started_state [] =
     Inl (Errorf ''invalid message type: shout'')"
  by (simp add: SayNode_Execute_def SayNode_Execute_messages_def advance_def say_shout_def
      example_defs)

subsection \<open>C8: a failing extraction\<close>

text \<open>
  Claim C8 speaks of what happens when the external extraction capability fails
  during the execution of a gather node. The code has no such event: no \<open>Execute\<close> of a
  gather node calls an external capability, none can return an error
  (\<open>GatherNode_Execute_never_fails\<close>, \<open>GatherNode_workflows_Execute_never_fails\<close>,
  \<open>GatherNode_Execute_messages_ok\<close>), and none reads \<open>MaxAttempts\<close> or \<open>FallbackNodeID\<close>.
  The condition of the claim therefore has no counterpart in this embedding, and the
  claim is not stated here.
\<close>

subsection \<open>C9: missing fields\<close>

text \<open>
  Claim C9 holds in neither revision of the gather node. On the node and the state of
  the repository's own test, the revision with \<open>getMissingProperties\<close> extracts
  nothing and leaves the variables empty, where the test expects \<open>name\<close> and \<open>email\<close>.
  The revision the engine calls does fill them, but its computation of the missing
  fields does not skip nullable properties: for the required and nullable property
  \<open>nickname\<close> it answers \<open>[nickname]\<close>, where \<open>getMissingProperties\<close> answers the empty
  list.
\<close>

theorem gather_missing_fields_divergence:
  "map_sum id (Variables \<circ> snd) (GatherNode_Execute_messages 5 profile_collector test_state []) =
     Inr [] \<and>
   missing_required nullable_schema (ExtractedData gather_nullable) = [''nickname''] \<and>
   getMissingProperties gather_nullable = Inr []"
  by code_simp

subsection \<open>C10: a node that is its own successor\<close>

text \<open>
  Claim C10. When the successor id of the current node is the node's own id, one call
  of \<open>ProcessConversationUpdate\<close> executes the node once and advances no further, for a
  say node as for a gather node: the call succeeds, the state it returns is the state
  that one \<open>Execute\<close> of the node produces, and the history grows by that one id. The
  storage is reliable and a gather node has a schema.
\<close>

theorem self_loop_once:
  assumes "faults w = []"
    and "workflows w workflowID = Some workflow"
    and "states w (workflowID, userID, callID) = Some state"
    and "\<not> IsComplete state"
    and "map_of (Nodes workflow) (CurrentNodeID state) = Some currentNode"
    and "NextNodeID (Base currentNode) = ID currentNode"
    and "schema_present currentNode"
  shows "\<exists>currentNode' state' w'.
           ProcessConversationUpdate workflowID userID callID messages w = (Inr state', w') \<and>
           Execute (Suc (Suc (clock w))) currentNode (state\<lparr>LastMessageAt := Suc (clock w)\<rparr>) =
             Inr (currentNode', state') \<and>
           CompletedNodeIDs state' = CompletedNodeIDs state @ [ID currentNode]"
proof -
  let ?s0 = "state\<lparr>LastMessageAt := Suc (clock w)\<rparr>"
  obtain n1 s1 where ex1: "Execute (Suc (Suc (clock w))) currentNode ?s0 = Inr (n1, s1)"
  proof (cases currentNode)
    case (Say sy)
    then show ?thesis using Execute_Say_ok that by blast
  next
    case (Gather g)
    then obtain schema where "GatherSchema g = Some schema"
      using assms(7) by (auto simp: schema_present_def)
    then show ?thesis using Execute_Gather_ok Gather that by blast
  qed
  have s1: "CompletedNodeIDs s1 = CompletedNodeIDs state @ [ID currentNode]"
    "IsComplete s1 \<or> CurrentNodeID s1 = ID n1"
    using Execute_shape(1-4) [OF ex1] assms(4,6) by (auto simp: ID_def)
  show ?thesis
    using ProcessConversationUpdate_reliable [OF assms(1-5) ex1, of messages]
      auto_advance_stay [OF s1(2)] ex1 s1(1)
    by simp
qed

theorem self_loop_once_witness:
  "\<exists>state' w'. ProcessConversationUpdate ''hold'' ''user-1'' ''call-1'' [] loop_world =
       (Inr state', w') \<and>
     CompletedNodeIDs state' = [''L'']"
  using self_loop_once [where w = loop_world and workflowID = "''hold''"
      and workflow = loop_workflow and userID = "''user-1''" and callID = "''call-1''"
      and state = loop_state and messages = "[]" and currentNode = "Say say_loop"]
  by (auto simp add: example_defs ID_def schema_present_def)

end
